theory Spec2Isabelle
  imports Complex_Main
begin

section \<open>Data model of \<open>src/Graph.js\<close>\<close>

text \<open>
  The component \<open>Graph\<close> builds, inside \<open>initializePixi\<close>, an array of node objects, an
  array of link objects that refer to two of those node objects, one PIXI circle per node
  and a d3 force simulation. Every JavaScript number is modelled as a \<open>real\<close>: the code
  only copies, compares and adds the coordinates the properties below concern. Counters
  (\<open>linkCount\<close>, the derived radius) are natural numbers.

  Node objects are shared by reference between the node array, the links and the
  circles. The model names a node object by its index in the node array; a circle is
  named by the index of the node it belongs to (\<open>circle.node = node\<close>,
  \<open>node.circle = circle\<close>). The field \<open>id\<close> of the source is \<open>nid\<close> here.
\<close>

record graphic =
  g_alpha :: real

record node =
  nid :: nat
  x :: real
  y :: real
  vx :: real
  vy :: real
  fx :: "real option"
  fy :: "real option"
  linkCount :: nat
  circle :: "graphic option"

record link =
  source :: nat
  target :: nat

text \<open>
  Modelled from the spec: the simulation object of the library d3-force (not part of
  the sources), as far as \<open>Graph.js\<close> uses it. Spec 3 and 4.1: the engine has the
  energy scalar alpha and an alphaTarget; \<open>reheat()\<close> resets alpha to 1 and resumes
  ticking, \<open>setAlphaTarget(v)\<close> stores the target. In the code
  \<open>simulation.alpha(1)\<close> stores alpha 1, \<open>simulation.restart()\<close> makes the tick timer
  run again and \<open>simulation.alphaTarget(0)\<close> stores the target 0.
\<close>

record sim =
  alpha :: real
  alphaTarget :: real
  running :: bool

text \<open>
  The PIXI Graphics objects of the program: the link layer \<open>graphicsRef.current\<close> and
  the circle of the node with a given index.
\<close>

datatype surface = LinkLayer | Circle nat

text \<open>
  The closure state of \<open>initializePixi\<close>: the node and link arrays, the variable
  \<open>dragTarget\<close> (a circle or \<open>null\<close>), the simulation, the number of times
  \<open>onDragMove\<close> is subscribed to the stage's \<open>pointermove\<close> (the emitter appends a
  listener on every \<open>on\<close>, and \<open>off\<close> with a function removes every listener with that
  function), and the children of \<open>app.stage\<close> in the order of the \<open>addChild\<close> calls
  (PIXI paints the children in this order, a later child over the earlier ones).
\<close>

record graph_state =
  nodes :: "node list"
  links :: "link list"
  dragTarget :: "nat option"
  moveListeners :: nat
  simulation :: sim
  stage :: "surface list"

text \<open>The part of a PIXI pointer event the handlers read: \<open>event.global.x\<close>, \<open>event.global.y\<close>.\<close>

record pointer =
  global_x :: real
  global_y :: real

text \<open>
  A write to a field of the node object with index \<open>i\<close>. The handlers only ever hold
  node objects that are in the array; an index outside it changes nothing.
\<close>

definition upd_node :: "nat \<Rightarrow> (node \<Rightarrow> node) \<Rightarrow> node list \<Rightarrow> node list" where
  "upd_node i f ns = (if i < length ns then ns[i := f (ns ! i)] else ns)"

section \<open>Construction of the graph\<close>

text \<open>
  \<^verbatim>\<open>
  const nodes = Array.from({ length: 20 }, (_, i) => ({
      id: i, x: Math.random() * width, y: Math.random() * height, linkCount: 0 }));
  \<close>
  The draws of \<open>Math.random()\<close> are an input of the model: \<open>rs\<close> holds, for each node,
  the two numbers drawn for it (the source draws 20 pairs). \<open>d3.forceSimulation(nodes)\<close>
  gives every node the velocity 0; a node object is created without \<open>fx\<close>, \<open>fy\<close> and
  without a circle.
\<close>

definition make_nodes :: "real \<Rightarrow> real \<Rightarrow> (real \<times> real) list \<Rightarrow> node list" where
  "make_nodes width height rs =
     map (\<lambda>(i, (rx, ry)).
            \<lparr>nid = i, x = rx * width, y = ry * height, vx = 0, vy = 0,
             fx = None, fy = None, linkCount = 0, circle = None\<rparr>)
         (enumerate 0 rs)"

text \<open>
  \<^verbatim>\<open>
  const links = Array.from({ length: 30 }, () => {
      const source = nodes[Math.floor(Math.random() * nodes.length)];
      const target = nodes[Math.floor(Math.random() * nodes.length)];
      if (source !== target) {
          source.linkCount++;
          target.linkCount++;
      }
      return { source, target };
  }).filter(l => l.source !== l.target);
  \<close>
  \<open>ds\<close> holds, for each of the calls of the callback in order, the two indices
  \<open>Math.floor(Math.random() * nodes.length)\<close> it drew (the source makes 30 calls; every
  index it draws is below \<open>nodes.length\<close>). Two node objects are the same object when
  their indices are equal. \<open>count_links\<close> is the effect of the callbacks on the
  \<open>linkCount\<close> fields, \<open>make_links\<close> the array that remains after the filter.
\<close>

definition inc_linkCount :: "node \<Rightarrow> node" where
  "inc_linkCount n = n\<lparr>linkCount := linkCount n + 1\<rparr>"

fun count_links :: "(nat \<times> nat) list \<Rightarrow> node list \<Rightarrow> node list" where
  "count_links [] ns = ns"
| "count_links ((s, t) # ds) ns =
     count_links ds
       (if s \<noteq> t then upd_node t inc_linkCount (upd_node s inc_linkCount ns) else ns)"

definition make_links :: "(nat \<times> nat) list \<Rightarrow> link list" where
  "make_links ds =
     filter (\<lambda>l. source l \<noteq> target l) (map (\<lambda>(s, t). \<lparr>source = s, target = t\<rparr>) ds)"

text \<open>
  \<^verbatim>\<open>
  nodes.forEach(node => {
      const circle = new Graphics();
      ...
      circle.node = node;
      circle.on("pointerdown", onDragStart, circle);
      app.stage.addChild(circle);
      node.circle = circle;
  });
  \<close>
  A new PIXI display object has alpha (opacity) 1.
\<close>

definition add_circles :: "node list \<Rightarrow> node list" where
  "add_circles ns = map (\<lambda>n. n\<lparr>circle := Some \<lparr>g_alpha = 1\<rparr>\<rparr>) ns"

text \<open>
  The state at the end of \<open>initializePixi\<close>: \<open>let dragTarget = null\<close>, no subscription
  of \<open>onDragMove\<close> yet, the simulation as \<open>d3.forceSimulation\<close> creates it (alpha 1,
  alphaTarget 0, timer running), and the stage with the link layer added first
  (\<open>app.stage.addChild(graphics)\<close>) and then the circle of every node in the order of
  the node array.
\<close>

definition initializePixi ::
  "real \<Rightarrow> real \<Rightarrow> (real \<times> real) list \<Rightarrow> (nat \<times> nat) list \<Rightarrow> graph_state" where
  "initializePixi width height rs ds =
     \<lparr>nodes = add_circles (count_links ds (make_nodes width height rs)),
      links = make_links ds,
      dragTarget = None,
      moveListeners = 0,
      simulation = \<lparr>alpha = 1, alphaTarget = 0, running = True\<rparr>,
      stage = LinkLayer # map Circle [0..<length rs]\<rparr>"

section \<open>The drag handlers\<close>

text \<open>
  \<^verbatim>\<open>
  function onDragMove(event) {
      if (dragTarget) {
          dragTarget.node.fx = event.global.x;
          dragTarget.node.fy = event.global.y;
          simulation.alpha(1).restart();
      }
  }
  \<close>
\<close>

definition onDragMove :: "pointer \<Rightarrow> graph_state \<Rightarrow> graph_state" where
  "onDragMove event s =
     (case dragTarget s of
        None \<Rightarrow> s
      | Some d \<Rightarrow>
          s\<lparr>nodes := upd_node d (\<lambda>n. n\<lparr>fx := Some (global_x event), fy := Some (global_y event)\<rparr>) (nodes s),
            simulation := (simulation s)\<lparr>alpha := 1, running := True\<rparr>\<rparr>)"

text \<open>
  \<^verbatim>\<open>
  function onDragStart(event) {
      this.alpha = 0.5;
      dragTarget = this;
      dragTarget.node.fx = event.global.x;
      dragTarget.node.fy = event.global.y;
      app.stage.on("pointermove", onDragMove);
  }
  \<close>
  \<open>this\<close> is the circle the listener was registered on, given here by the index of
  its node.
\<close>

definition onDragStart :: "nat \<Rightarrow> pointer \<Rightarrow> graph_state \<Rightarrow> graph_state" where
  "onDragStart this event s =
     s\<lparr>nodes := upd_node this
          (\<lambda>n. n\<lparr>circle := map_option (\<lambda>g. g\<lparr>g_alpha := 1/2\<rparr>) (circle n),
                 fx := Some (global_x event), fy := Some (global_y event)\<rparr>) (nodes s),
       dragTarget := Some this,
       moveListeners := Suc (moveListeners s)\<rparr>"

text \<open>
  \<^verbatim>\<open>
  function onDragEnd() {
      if (dragTarget) {
          app.stage.off("pointermove", onDragMove);
          dragTarget.alpha = 1;
          dragTarget.node.fx = null;
          dragTarget.node.fy = null;
          dragTarget = null;
          simulation.alphaTarget(0);
      }
  }
  \<close>
\<close>

definition onDragEnd :: "graph_state \<Rightarrow> graph_state" where
  "onDragEnd s =
     (case dragTarget s of
        None \<Rightarrow> s
      | Some d \<Rightarrow>
          s\<lparr>moveListeners := 0,
            nodes := upd_node d
              (\<lambda>n. n\<lparr>circle := map_option (\<lambda>g. g\<lparr>g_alpha := 1\<rparr>) (circle n),
                     fx := None, fy := None\<rparr>) (nodes s),
            dragTarget := None,
            simulation := (simulation s)\<lparr>alphaTarget := 0\<rparr>\<rparr>)"

text \<open>
  The pointer events the host delivers and the listeners they reach:
  \<open>circle.on("pointerdown", onDragStart, circle)\<close> for every circle,
  \<open>app.stage.on("pointerup", onDragEnd)\<close>, \<open>app.stage.on("pointerupoutside", onDragEnd)\<close>,
  and \<open>onDragMove\<close> once for each of its subscriptions to \<open>pointermove\<close>.
\<close>

datatype pointer_event =
    PointerDown nat pointer
  | PointerMove pointer
  | PointerUp
  | PointerUpOutside

fun dispatch :: "pointer_event \<Rightarrow> graph_state \<Rightarrow> graph_state" where
  "dispatch (PointerDown c event) s = onDragStart c event s"
| "dispatch (PointerMove event) s = ((onDragMove event) ^^ (moveListeners s)) s"
| "dispatch PointerUp s = onDragEnd s"
| "dispatch PointerUpOutside s = onDragEnd s"

section \<open>The render callback\<close>

text \<open>
  Drawing is a sequence of calls on PIXI Graphics objects. The model returns the calls of
  one run of \<open>updatePositions\<close> in the order the code makes them, each with the object
  it is made on.
\<close>

datatype draw_call =
    Clear
  | BeginFill nat real
  | LineStyle real nat real
  | MoveTo real real
  | LineTo real real
  | DrawCircle real real nat
  | EndFill

text \<open>
  \<^verbatim>\<open>
  function drawNode(graphic, x, y, linkCount) {
      const radius = 4 + linkCount*2;
      graphic.clear();
      graphic.beginFill(0x66ccff);
      graphic.drawCircle(x, y, radius);
      graphic.endFill();
  }
  \<close>
\<close>

definition radius :: "nat \<Rightarrow> nat" where
  "radius count = 4 + count * 2"

definition drawNode :: "surface \<Rightarrow> real \<Rightarrow> real \<Rightarrow> nat \<Rightarrow> (surface \<times> draw_call) list" where
  "drawNode graphic px py count =
     [(graphic, Clear),
      (graphic, BeginFill 6737151 1),
      (graphic, DrawCircle px py (radius count)),
      (graphic, EndFill)]"

text \<open>
  \<^verbatim>\<open>
  function updatePositions() {
      graphicsRef.current.clear();
      graphicsRef.current.beginFill(0x000000, 0);
      graphicsRef.current.lineStyle(2, 0xffffff, 0.6);
      linksRef.current.forEach(link => {
          if (link.source && link.target) {
              graphicsRef.current.moveTo(link.source.x, link.source.y);
              graphicsRef.current.lineTo(link.target.x, link.target.y);
          }
      });
      graphicsRef.current.endFill();
      nodesRef.current.forEach(node => {
          if (node.circle) {
              node.circle.clear();
              drawNode(node.circle, node.x, node.y, node.linkCount);
          }
      });
  }
  \<close>
  A link end is a node object, which is truthy; an index outside the node array stands
  for no object.
\<close>

definition draw_link :: "node list \<Rightarrow> link \<Rightarrow> (surface \<times> draw_call) list" where
  "draw_link ns l =
     (if source l < length ns \<and> target l < length ns
      then [(LinkLayer, MoveTo (x (ns ! source l)) (y (ns ! source l))),
            (LinkLayer, LineTo (x (ns ! target l)) (y (ns ! target l)))]
      else [])"

definition redraw_node :: "nat \<times> node \<Rightarrow> (surface \<times> draw_call) list" where
  "redraw_node = (\<lambda>(i, n).
     (case circle n of
        None \<Rightarrow> []
      | Some g \<Rightarrow> (Circle i, Clear) # drawNode (Circle i) (x n) (y n) (linkCount n)))"

definition updatePositions :: "graph_state \<Rightarrow> (surface \<times> draw_call) list" where
  "updatePositions s =
     [(LinkLayer, Clear), (LinkLayer, BeginFill 0 0), (LinkLayer, LineStyle 2 16777215 (6/10))]
     @ concat (map (draw_link (nodes s)) (links s))
     @ [(LinkLayer, EndFill)]
     @ concat (map redraw_node (enumerate 0 (nodes s)))"





text \<open>The degree of the node with index \<open>i\<close>: the number of links incident to it.\<close>

definition degree :: "link list \<Rightarrow> nat \<Rightarrow> nat" where
  "degree ls i = length (filter (\<lambda>l. source l = i \<or> target l = i) ls)"

section \<open>The simulation engine\<close>

text \<open>
  The tick of the engine is the tick of the library d3-force, which is not part of the
  sources. The configured forces are a parameter: \<open>F ns i\<close> is the net force on the
  node with index \<open>i\<close> when the nodes are \<open>ns\<close>. The decay rate of alpha and the
  threshold below which the timer stops are parameters too.
\<close>

text \<open>
  Modelled from the spec: the integration step of the engine's tick (d3-force, missing
  from the sources). Spec 4.1: each node's velocity accumulates the net force scaled by
  alpha, then position += velocity, except when the node has a non-null pinned position,
  in which case position is clamped to (fx, fy).
\<close>

definition integrate :: "real \<Rightarrow> (node list \<Rightarrow> nat \<Rightarrow> real \<times> real) \<Rightarrow> node list \<Rightarrow> nat \<times> node \<Rightarrow> node" where
  "integrate a F ns = (\<lambda>(i, n).
     (let v1 = vx n + a * fst (F ns i);
          v2 = vy n + a * snd (F ns i)
      in n\<lparr>vx := v1, vy := v2,
           x := (case fx n of None \<Rightarrow> x n + v1 | Some p \<Rightarrow> p),
           y := (case fy n of None \<Rightarrow> y n + v2 | Some p \<Rightarrow> p)\<rparr>))"

text \<open>
  Modelled from the spec: the alpha update of the engine's tick (d3-force, missing from
  the sources). Spec 4.1: after integrating all nodes, alpha decays by a fixed
  multiplicative rate or is left at a fixed alphaTarget if one is set (alphaTarget 0 is
  no target: the simulation is allowed to settle). Spec 3: the tick loop stops scheduling
  further work once alpha falls below a small threshold.
\<close>

definition decay :: "real \<Rightarrow> real \<Rightarrow> sim \<Rightarrow> sim" where
  "decay rate alphaMin m =
     (let a = (if alphaTarget m \<noteq> 0 then alphaTarget m else alpha m * rate)
      in m\<lparr>alpha := a, running := (running m \<and> \<not> a < alphaMin)\<rparr>)"

text \<open>
  Modelled from the spec: one tick of the engine (d3-force, missing from the sources):
  the integration of every node with the current alpha, then the alpha update.
\<close>

definition tick ::
  "(node list \<Rightarrow> nat \<Rightarrow> real \<times> real) \<Rightarrow> real \<Rightarrow> real \<Rightarrow> graph_state \<Rightarrow> graph_state" where
  "tick F rate alphaMin s =
     s\<lparr>nodes := map (integrate (alpha (simulation s)) F (nodes s)) (enumerate 0 (nodes s)),
       simulation := decay rate alphaMin (simulation s)\<rparr>"

section \<open>Runs of the program\<close>

text \<open>
  Everything runs on one thread: the program is a sequence of pointer events and timer
  ticks, each handled to completion. The timer fires only while the simulation runs.
\<close>

datatype event = Pointer pointer_event | Tick

fun step ::
  "(node list \<Rightarrow> nat \<Rightarrow> real \<times> real) \<Rightarrow> real \<Rightarrow> real \<Rightarrow> event \<Rightarrow> graph_state \<Rightarrow> graph_state" where
  "step F rate alphaMin (Pointer e) s = dispatch e s"
| "step F rate alphaMin Tick s =
     (if running (simulation s) then tick F rate alphaMin s else s)"

fun run ::
  "(node list \<Rightarrow> nat \<Rightarrow> real \<times> real) \<Rightarrow> real \<Rightarrow> real \<Rightarrow> event list \<Rightarrow> graph_state \<Rightarrow> graph_state" where
  "run F rate alphaMin [] s = s"
| "run F rate alphaMin (e # es) s = run F rate alphaMin es (step F rate alphaMin e s)"

text \<open>
  The events that reheat: \<open>onDragMove\<close> is the only handler that writes alpha, and it
  is reached by pointer-move events only.
\<close>

fun reheats :: "event \<Rightarrow> bool" where
  "reheats (Pointer (PointerMove p)) = True"
| "reheats e = False"

section \<open>A small graph for the concrete checks\<close>

text \<open>
  Three nodes on an 800 by 600 canvas and three draws of a link, the second of them a
  self-link: the links that remain are 0 - 1 and 1 - 2.
\<close>

definition example_graph :: graph_state where
  "example_graph = initializePixi 800 600 [(1/4, 1/2), (1/2, 1/4), (3/4, 3/4)] [(0, 1), (1, 1), (1, 2)]"

definition pointer_at :: "real \<Rightarrow> real \<Rightarrow> pointer" where
  "pointer_at px py = \<lparr>global_x = px, global_y = py\<rparr>"

definition no_force :: "node list \<Rightarrow> nat \<Rightarrow> real \<times> real" where
  "no_force ns i = (0, 0)"

definition unit_force :: "node list \<Rightarrow> nat \<Rightarrow> real \<times> real" where
  "unit_force ns i = (1, 1)"

text \<open>The scenario of the spec: node 0 pinned at (100, 100) before any tick.\<close>

definition pinned_graph :: graph_state where
  "pinned_graph = dispatch (PointerDown 0 (pointer_at 100 100)) example_graph"

text \<open>
  The scenario of the spec: pointer-down on node 0 at (0, 0), then pointer-move to
  (50, 50); the state before the pointer-up.
\<close>

definition drag_scenario :: graph_state where
  "drag_scenario =
     dispatch (PointerMove (pointer_at 50 50)) (dispatch (PointerDown 0 (pointer_at 0 0)) example_graph)"

text \<open>
  The same graph after the layout has settled: alpha has decayed below the threshold
  and the timer has stopped. \<open>dragging_settled\<close> is that state after a pointer-down on
  node 0 at (1, 1).
\<close>

definition settled_graph :: graph_state where
  "settled_graph = example_graph\<lparr>simulation := \<lparr>alpha = 1/2000, alphaTarget = 0, running = False\<rparr>\<rparr>"

definition dragging_settled :: graph_state where
  "dragging_settled = dispatch (PointerDown 0 (pointer_at 1 1)) settled_graph"

section \<open>Basic facts\<close>

lemma length_upd_node [simp]: "length (upd_node i f ns) = length ns"
  by (simp add: upd_node_def)

lemma nth_upd_node:
  "k < length ns \<Longrightarrow> upd_node i f ns ! k = (if k = i then f (ns ! k) else ns ! k)"
  by (simp add: upd_node_def)

text \<open>Delivering one pointer-move to several subscriptions of \<open>onDragMove\<close> is the same as
  calling it once.\<close>

lemma onDragMove_idem: "onDragMove event (onDragMove event s) = onDragMove event s"
  by (cases "dragTarget s") (simp_all add: onDragMove_def upd_node_def)

lemma onDragMove_funpow: "0 < k \<Longrightarrow> (onDragMove event ^^ k) s = onDragMove event s"
proof (induction k)
  case 0
  then show ?case by simp
next
  case (Suc k)
  then show ?case by (cases k) (simp_all add: onDragMove_idem)
qed

lemma onDragMove_funpow_if:
  "(onDragMove event ^^ k) s = (if k = 0 then s else onDragMove event s)"
  by (simp add: onDragMove_funpow)

lemma run_append:
  "run F rate alphaMin (es @ es') s = run F rate alphaMin es' (run F rate alphaMin es s)"
  by (induction es arbitrary: s) simp_all

subsection \<open>The concrete states, evaluated\<close>

lemma example_graph_eq: "example_graph = \<lparr>nodes =
    [\<lparr>nid = 0, x = 200, y = 300, vx = 0, vy = 0, fx = None, fy = None,
        linkCount = 1, circle = Some \<lparr>g_alpha = 1\<rparr>\<rparr>,
     \<lparr>nid = 1, x = 400, y = 150, vx = 0, vy = 0, fx = None, fy = None,
        linkCount = 2, circle = Some \<lparr>g_alpha = 1\<rparr>\<rparr>,
     \<lparr>nid = 2, x = 600, y = 450, vx = 0, vy = 0, fx = None, fy = None,
        linkCount = 1, circle = Some \<lparr>g_alpha = 1\<rparr>\<rparr>],
    links = [\<lparr>source = 0, target = 1\<rparr>, \<lparr>source = 1, target = 2\<rparr>],
    dragTarget = None, moveListeners = 0,
    simulation = \<lparr>alpha = 1, alphaTarget = 0, running = True\<rparr>,
    stage = [LinkLayer, Circle 0, Circle 1, Circle 2]\<rparr>"
  by (simp add: example_graph_def initializePixi_def make_nodes_def make_links_def add_circles_def
      upd_node_def inc_linkCount_def)

lemma drag_scenario_eq: "drag_scenario = \<lparr>nodes =
    [\<lparr>nid = 0, x = 200, y = 300, vx = 0, vy = 0, fx = Some 50, fy = Some 50,
        linkCount = 1, circle = Some \<lparr>g_alpha = 1/2\<rparr>\<rparr>,
     \<lparr>nid = 1, x = 400, y = 150, vx = 0, vy = 0, fx = None, fy = None,
        linkCount = 2, circle = Some \<lparr>g_alpha = 1\<rparr>\<rparr>,
     \<lparr>nid = 2, x = 600, y = 450, vx = 0, vy = 0, fx = None, fy = None,
        linkCount = 1, circle = Some \<lparr>g_alpha = 1\<rparr>\<rparr>],
    links = [\<lparr>source = 0, target = 1\<rparr>, \<lparr>source = 1, target = 2\<rparr>],
    dragTarget = Some 0, moveListeners = 1,
    simulation = \<lparr>alpha = 1, alphaTarget = 0, running = True\<rparr>,
    stage = [LinkLayer, Circle 0, Circle 1, Circle 2]\<rparr>"
  by (simp add: drag_scenario_def example_graph_eq onDragStart_def onDragMove_def upd_node_def
      pointer_at_def)

lemma settled_graph_eq: "settled_graph = \<lparr>nodes =
    [\<lparr>nid = 0, x = 200, y = 300, vx = 0, vy = 0, fx = None, fy = None,
        linkCount = 1, circle = Some \<lparr>g_alpha = 1\<rparr>\<rparr>,
     \<lparr>nid = 1, x = 400, y = 150, vx = 0, vy = 0, fx = None, fy = None,
        linkCount = 2, circle = Some \<lparr>g_alpha = 1\<rparr>\<rparr>,
     \<lparr>nid = 2, x = 600, y = 450, vx = 0, vy = 0, fx = None, fy = None,
        linkCount = 1, circle = Some \<lparr>g_alpha = 1\<rparr>\<rparr>],
    links = [\<lparr>source = 0, target = 1\<rparr>, \<lparr>source = 1, target = 2\<rparr>],
    dragTarget = None, moveListeners = 0,
    simulation = \<lparr>alpha = 1/2000, alphaTarget = 0, running = False\<rparr>,
    stage = [LinkLayer, Circle 0, Circle 1, Circle 2]\<rparr>"
  by (simp add: settled_graph_def example_graph_eq)

lemma dragging_settled_eq: "dragging_settled = \<lparr>nodes =
    [\<lparr>nid = 0, x = 200, y = 300, vx = 0, vy = 0, fx = Some 1, fy = Some 1,
        linkCount = 1, circle = Some \<lparr>g_alpha = 1/2\<rparr>\<rparr>,
     \<lparr>nid = 1, x = 400, y = 150, vx = 0, vy = 0, fx = None, fy = None,
        linkCount = 2, circle = Some \<lparr>g_alpha = 1\<rparr>\<rparr>,
     \<lparr>nid = 2, x = 600, y = 450, vx = 0, vy = 0, fx = None, fy = None,
        linkCount = 1, circle = Some \<lparr>g_alpha = 1\<rparr>\<rparr>],
    links = [\<lparr>source = 0, target = 1\<rparr>, \<lparr>source = 1, target = 2\<rparr>],
    dragTarget = Some 0, moveListeners = 1,
    simulation = \<lparr>alpha = 1/2000, alphaTarget = 0, running = False\<rparr>,
    stage = [LinkLayer, Circle 0, Circle 1, Circle 2]\<rparr>"
  by (simp add: dragging_settled_def settled_graph_eq onDragStart_def upd_node_def pointer_at_def)

lemma pinned_graph_eq: "pinned_graph = \<lparr>nodes =
    [\<lparr>nid = 0, x = 200, y = 300, vx = 0, vy = 0, fx = Some 100, fy = Some 100,
        linkCount = 1, circle = Some \<lparr>g_alpha = 1/2\<rparr>\<rparr>,
     \<lparr>nid = 1, x = 400, y = 150, vx = 0, vy = 0, fx = None, fy = None,
        linkCount = 2, circle = Some \<lparr>g_alpha = 1\<rparr>\<rparr>,
     \<lparr>nid = 2, x = 600, y = 450, vx = 0, vy = 0, fx = None, fy = None,
        linkCount = 1, circle = Some \<lparr>g_alpha = 1\<rparr>\<rparr>],
    links = [\<lparr>source = 0, target = 1\<rparr>, \<lparr>source = 1, target = 2\<rparr>],
    dragTarget = Some 0, moveListeners = 1,
    simulation = \<lparr>alpha = 1, alphaTarget = 0, running = True\<rparr>,
    stage = [LinkLayer, Circle 0, Circle 1, Circle 2]\<rparr>"
  by (simp add: pinned_graph_def example_graph_eq onDragStart_def upd_node_def pointer_at_def)

lemma updatePositions_example: "updatePositions example_graph =
  [(LinkLayer, Clear), (LinkLayer, BeginFill 0 0), (LinkLayer, LineStyle 2 16777215 (6/10)),
   (LinkLayer, MoveTo 200 300), (LinkLayer, LineTo 400 150),
   (LinkLayer, MoveTo 400 150), (LinkLayer, LineTo 600 450),
   (LinkLayer, EndFill),
   (Circle 0, Clear), (Circle 0, Clear), (Circle 0, BeginFill 6737151 1),
   (Circle 0, DrawCircle 200 300 6), (Circle 0, EndFill),
   (Circle 1, Clear), (Circle 1, Clear), (Circle 1, BeginFill 6737151 1),
   (Circle 1, DrawCircle 400 150 8), (Circle 1, EndFill),
   (Circle 2, Clear), (Circle 2, Clear), (Circle 2, BeginFill 6737151 1),
   (Circle 2, DrawCircle 600 450 6), (Circle 2, EndFill)]"
  by (simp add: example_graph_eq updatePositions_def draw_link_def redraw_node_def drawNode_def
      radius_def)

section \<open>Construction: links and degrees\<close>




lemma links_dispatch: "links (dispatch e s) = links s"
  by (cases e) (simp_all add: onDragMove_funpow_if onDragStart_def onDragMove_def onDragEnd_def
      split: option.splits)

lemma links_step: "links (step F rate alphaMin e s) = links s"
  by (cases e) (simp_all add: links_dispatch tick_def)

lemma links_run: "links (run F rate alphaMin es s) = links s"
  by (induction es arbitrary: s) (simp_all add: links_step)

text \<open>
  C7. Every link of the link array built by \<open>initializePixi\<close> (the array passed to
  \<open>d3.forceLink\<close>), and of the link array of every state the program reaches from
  there, connects two distinct nodes: no link has source = target.
\<close>

theorem no_self_links:
  "\<forall>l \<in> set (links (run F rate alphaMin es (initializePixi width height rs ds))).
      source l \<noteq> target l"
  by (simp add: links_run initializePixi_def make_links_def)

theorem no_self_links_witness:
  "links example_graph = [\<lparr>source = 0, target = 1\<rparr>, \<lparr>source = 1, target = 2\<rparr>] \<and>
   source (links example_graph ! 0) \<noteq> target (links example_graph ! 0) \<and>
   source (links example_graph ! 1) \<noteq> target (links example_graph ! 1)"
proof -
  have l: "links example_graph = [\<lparr>source = 0, target = 1\<rparr>, \<lparr>source = 1, target = 2\<rparr>]"
    by (simp add: example_graph_eq)
  have "\<forall>l \<in> set (links example_graph). source l \<noteq> target l"
    using no_self_links [of no_force 1 0 "[]" 800 600 "[(1/4, 1/2), (1/2, 1/4), (3/4, 3/4)]" "[(0, 1), (1, 1), (1, 2)]"]
    by (simp add: example_graph_def)
  then show ?thesis using l by simp
qed

lemma map_linkCount_upd_node:
  "(\<And>n. linkCount (f n) = linkCount n) \<Longrightarrow> map linkCount (upd_node i f ns) = map linkCount ns"
  by (simp add: upd_node_def map_update list_update_same_conv)

lemma linkCount_dispatch: "map linkCount (nodes (dispatch e s)) = map linkCount (nodes s)"
  by (cases e) (simp_all add: onDragMove_funpow_if onDragStart_def onDragMove_def onDragEnd_def
      map_linkCount_upd_node split: option.splits)

lemma map_enumerate_snd:
  "(\<And>i n. g (f (i, n)) = g n) \<Longrightarrow> map (\<lambda>p. g (f p)) (enumerate k ns) = map g ns"
  by (induction ns arbitrary: k) simp_all

lemma linkCount_tick: "map linkCount (nodes (tick F rate alphaMin s)) = map linkCount (nodes s)"
  by (simp add: tick_def comp_def map_enumerate_snd integrate_def Let_def)

lemma linkCount_step: "map linkCount (nodes (step F rate alphaMin e s)) = map linkCount (nodes s)"
  by (cases e) (simp_all add: linkCount_dispatch linkCount_tick)

lemma linkCount_run: "map linkCount (nodes (run F rate alphaMin es s)) = map linkCount (nodes s)"
  by (induction es arbitrary: s) (simp_all add: linkCount_step)


lemma length_count_links [simp]: "length (count_links ds ns) = length ns"
  by (induction ds ns rule: count_links.induct) simp_all


lemma degree_Cons:
  "degree (l # ls) i = (if source l = i \<or> target l = i then 1 else 0) + degree ls i"
  by (simp add: degree_def)

lemma make_links_Cons:
  "make_links ((a, b) # ds) = (if a \<noteq> b then \<lparr>source = a, target = b\<rparr> # make_links ds else make_links ds)"
  by (simp add: make_links_def)

lemma count_links_degree:
  "i < length ns \<Longrightarrow>
   linkCount (count_links ds ns ! i) = linkCount (ns ! i) + degree (make_links ds) i"
proof (induction ds ns rule: count_links.induct)
  case (1 ns)
  then show ?case by (simp add: make_links_def degree_def)
next
  case (2 a b ds ns)
  show ?case
  proof (cases "a = b")
    case True
    with 2 show ?thesis by (simp add: make_links_Cons)
  next
    case False
    with 2 show ?thesis
      by (auto simp add: make_links_Cons degree_Cons nth_upd_node inc_linkCount_def)
  qed
qed

lemma linkCount_initializePixi:
  "i < length (nodes (initializePixi width height rs ds)) \<Longrightarrow>
   linkCount (nodes (initializePixi width height rs ds) ! i) = degree (links (initializePixi width height rs ds)) i"
  by (simp add: initializePixi_def add_circles_def count_links_degree make_nodes_def nth_enumerate_eq split_def)

lemma linkCount_reachable:
  assumes "s = run F rate alphaMin es (initializePixi width height rs ds)"
    and "i < length (nodes s)"
  shows "linkCount (nodes s ! i) = degree (links s) i"
proof -
  let ?s0 = "initializePixi width height rs ds"
  have m: "map linkCount (nodes s) = map linkCount (nodes ?s0)"
    using assms(1) by (simp add: linkCount_run)
  then have len: "length (nodes s) = length (nodes ?s0)"
    by (rule map_eq_imp_length_eq)
  have "linkCount (nodes s ! i) = map linkCount (nodes s) ! i"
    using assms(2) by simp
  also have "\<dots> = linkCount (nodes ?s0 ! i)"
    using assms(2) len by (simp add: m)
  also have "\<dots> = degree (links ?s0) i"
    using assms(2) len by (simp add: linkCount_initializePixi)
  finally show ?thesis using assms(1) by (simp add: links_run)
qed

section \<open>Rendering\<close>

lemma radius_mono: "k \<le> k' \<Longrightarrow> radius k \<le> radius k'"
  by (simp add: radius_def)

lemma circle_call_in_log:
  assumes "(Circle i, DrawCircle a b r) \<in> set (updatePositions s)"
  shows "i < length (nodes s) \<and> r = radius (linkCount (nodes s ! i))"
  using assms
  by (auto simp: updatePositions_def draw_link_def redraw_node_def drawNode_def
      in_set_enumerate_eq split: if_splits option.splits)

text \<open>
  C9. The radius of the circle drawn for a node is 4 + 2 * degree, where the degree is
  the number of links incident to the node; so in one render of any state the program
  reaches, a node of greater or equal degree is drawn with a greater or equal radius.
\<close>

theorem radius_monotone_in_degree:
  assumes "s = run F rate alphaMin es (initializePixi width height rs ds)"
    and "(Circle i, DrawCircle a b r) \<in> set (updatePositions s)"
    and "(Circle j, DrawCircle a' b' r') \<in> set (updatePositions s)"
    and "degree (links s) i \<le> degree (links s) j"
  shows "r = 4 + degree (links s) i * 2 \<and> r' = 4 + degree (links s) j * 2 \<and> r \<le> r'"
proof -
  from assms(2) have i: "i < length (nodes s)" "r = radius (linkCount (nodes s ! i))"
    using circle_call_in_log by blast+
  from assms(3) have j: "j < length (nodes s)" "r' = radius (linkCount (nodes s ! j))"
    using circle_call_in_log by blast+
  have "linkCount (nodes s ! i) = degree (links s) i"
    using assms(1) i(1) by (rule linkCount_reachable)
  moreover have "linkCount (nodes s ! j) = degree (links s) j"
    using assms(1) j(1) by (rule linkCount_reachable)
  ultimately show ?thesis
    using i(2) j(2) assms(4) by (simp add: radius_def)
qed

theorem radius_monotone_in_degree_witness:
  "(Circle 0, DrawCircle 200 300 6) \<in> set (updatePositions example_graph) \<and>
   (Circle 1, DrawCircle 400 150 8) \<in> set (updatePositions example_graph) \<and>
   degree (links example_graph) 0 = 1 \<and> degree (links example_graph) 1 = 2 \<and>
   (6::nat) = 4 + degree (links example_graph) 0 * 2 \<and>
   (8::nat) = 4 + degree (links example_graph) 1 * 2 \<and> (6::nat) \<le> 8"
proof -
  have h1: "example_graph = run no_force 1 0 [] (initializePixi 800 600 [(1/4, 1/2), (1/2, 1/4), (3/4, 3/4)] [(0, 1), (1, 1), (1, 2)])"
    by (simp add: example_graph_def)
  have h2: "(Circle 0, DrawCircle 200 300 6) \<in> set (updatePositions example_graph)"
    by (simp add: updatePositions_example)
  have h3: "(Circle 1, DrawCircle 400 150 8) \<in> set (updatePositions example_graph)"
    by (simp add: updatePositions_example)
  have d: "degree (links example_graph) 0 = 1 \<and> degree (links example_graph) 1 = 2"
    by (simp add: example_graph_eq degree_def)
  then have h4: "degree (links example_graph) 0 \<le> degree (links example_graph) 1" by simp
  show ?thesis using radius_monotone_in_degree [OF h1 h2 h3 h4] h2 h3 d by simp
qed




























section \<open>Drag start\<close>

text \<open>
  C4, as the spec states it, fails on the code. \<open>onDragStart\<close> never touches the
  simulation: a pointer-down on node 0 of the settled graph (alpha 1/2000, timer
  stopped) starts the drag and leaves alpha, alphaTarget and the stopped timer as they
  were. No reheat and no alpha target is part of the transition.
\<close>

theorem pointer_down_no_reheat:
  "dragTarget settled_graph = None \<and>
   simulation settled_graph = \<lparr>alpha = 1/2000, alphaTarget = 0, running = False\<rparr> \<and>
   dragTarget (dispatch (PointerDown 0 (pointer_at 1 1)) settled_graph) = Some 0 \<and>
   simulation (dispatch (PointerDown 0 (pointer_at 1 1)) settled_graph)
     = \<lparr>alpha = 1/2000, alphaTarget = 0, running = False\<rparr>"
  by (simp add: settled_graph_eq onDragStart_def upd_node_def pointer_at_def)

text \<open>
  C4, amended. For every pointer-down event on a node while the controller is Idle, the
  transition to Dragging makes that node's circle the drag target, sets the node's pinned
  position (fx, fy) to the pointer's coordinates and subscribes the move handler; the
  transition itself does not reheat: the simulation (alpha, alphaTarget, timer) is
  unchanged by it.
\<close>

theorem pointer_down_idle:
  assumes "dragTarget s = None" and "c < length (nodes s)"
  shows "dragTarget (dispatch (PointerDown c event) s) = Some c \<and>
         fx (nodes (dispatch (PointerDown c event) s) ! c) = Some (global_x event) \<and>
         fy (nodes (dispatch (PointerDown c event) s) ! c) = Some (global_y event) \<and>
         moveListeners (dispatch (PointerDown c event) s) = Suc (moveListeners s) \<and>
         simulation (dispatch (PointerDown c event) s) = simulation s"
  using assms by (simp add: onDragStart_def nth_upd_node)

theorem pointer_down_idle_witness:
  "dragTarget settled_graph = None \<and>
   dragTarget (dispatch (PointerDown 0 (pointer_at 1 1)) settled_graph) = Some 0 \<and>
   fx (nodes (dispatch (PointerDown 0 (pointer_at 1 1)) settled_graph) ! 0) = Some 1 \<and>
   fy (nodes (dispatch (PointerDown 0 (pointer_at 1 1)) settled_graph) ! 0) = Some 1 \<and>
   simulation (dispatch (PointerDown 0 (pointer_at 1 1)) settled_graph) = simulation settled_graph"
proof -
  have h1: "dragTarget settled_graph = None" by (simp add: settled_graph_eq)
  have h2: "0 < length (nodes settled_graph)" by (simp add: settled_graph_eq)
  show ?thesis
    using pointer_down_idle [OF h1 h2, of "pointer_at 1 1"] h1
    by (simp add: pointer_at_def)
qed

text \<open>
  C2, as the spec states it, fails on the code. \<open>onDragStart\<close> has no guard on
  \<open>dragTarget\<close>: while node 0 is being dragged, a pointer-down on the circle of node 1
  at (5, 6) is not ignored. The drag target becomes circle 1 and node 1, which was not
  pinned, is pinned at (5, 6).
\<close>

theorem second_pointer_down_not_ignored:
  "dragTarget dragging_settled = Some 0 \<and>
   dragTarget (dispatch (PointerDown 1 (pointer_at 5 6)) dragging_settled) = Some 1 \<and>
   fx (nodes dragging_settled ! 1) = None \<and>
   fy (nodes dragging_settled ! 1) = None \<and>
   fx (nodes (dispatch (PointerDown 1 (pointer_at 5 6)) dragging_settled) ! 1) = Some 5 \<and>
   fy (nodes (dispatch (PointerDown 1 (pointer_at 5 6)) dragging_settled) ! 1) = Some 6"
  by (simp add: dragging_settled_eq onDragStart_def upd_node_def pointer_at_def)

text \<open>
  C2, amended. There is one drag target at a time, and the last pointer-down wins: a
  pointer-down on a node delivered while the controller is already Dragging makes that
  node's circle the drag target and pins the node at the pointer's coordinates; the
  pinned position of every node other than the pressed one is unchanged by the event.
\<close>

theorem pointer_down_while_dragging:
  assumes "dragTarget s = Some d" and "c < length (nodes s)"
  shows "dragTarget (dispatch (PointerDown c event) s) = Some c \<and>
         fx (nodes (dispatch (PointerDown c event) s) ! c) = Some (global_x event) \<and>
         fy (nodes (dispatch (PointerDown c event) s) ! c) = Some (global_y event) \<and>
         length (nodes (dispatch (PointerDown c event) s)) = length (nodes s) \<and>
         (\<forall>k. k < length (nodes s) \<and> k \<noteq> c \<longrightarrow>
              fx (nodes (dispatch (PointerDown c event) s) ! k) = fx (nodes s ! k) \<and>
              fy (nodes (dispatch (PointerDown c event) s) ! k) = fy (nodes s ! k))"
  using assms by (simp add: onDragStart_def nth_upd_node)

theorem pointer_down_while_dragging_witness:
  "dragTarget dragging_settled = Some 0 \<and>
   dragTarget (dispatch (PointerDown 1 (pointer_at 5 6)) dragging_settled) = Some 1 \<and>
   fx (nodes (dispatch (PointerDown 1 (pointer_at 5 6)) dragging_settled) ! 1) = Some 5 \<and>
   fy (nodes (dispatch (PointerDown 1 (pointer_at 5 6)) dragging_settled) ! 1) = Some 6 \<and>
   fx (nodes (dispatch (PointerDown 1 (pointer_at 5 6)) dragging_settled) ! 0) = Some 1 \<and>
   fy (nodes (dispatch (PointerDown 1 (pointer_at 5 6)) dragging_settled) ! 0) = Some 1 \<and>
   fx (nodes (dispatch (PointerDown 1 (pointer_at 5 6)) dragging_settled) ! 2) = None"
proof -
  have h1: "dragTarget dragging_settled = Some 0" by (simp add: dragging_settled_eq)
  have h2: "1 < length (nodes dragging_settled)" by (simp add: dragging_settled_eq)
  have before: "fx (nodes dragging_settled ! 0) = Some 1 \<and> fy (nodes dragging_settled ! 0) = Some 1
      \<and> fx (nodes dragging_settled ! 2) = None \<and> length (nodes dragging_settled) = 3"
    by (simp add: dragging_settled_eq)
  show ?thesis
    using pointer_down_while_dragging [OF h1 h2, of "pointer_at 5 6"] h1 before
    by (simp add: pointer_at_def)
qed

section \<open>Drag move\<close>

text \<open>While a drag is in progress the move handler is subscribed: in every state the
  program reaches, \<open>dragTarget\<close> is null or \<open>onDragMove\<close> has a subscription.\<close>

lemma dragging_subscribed_step:
  assumes "dragTarget s = None \<or> 0 < moveListeners s"
  shows "dragTarget (step F rate alphaMin e s) = None \<or> 0 < moveListeners (step F rate alphaMin e s)"
proof (cases e)
  case (Pointer p)
  then show ?thesis using assms
    by (cases p) (auto simp: onDragMove_funpow_if onDragStart_def onDragMove_def onDragEnd_def
        split: option.splits)
next
  case Tick
  then show ?thesis using assms by (simp add: tick_def)
qed

lemma dragging_subscribed:
  "dragTarget (run F rate alphaMin es (initializePixi width height rs ds)) = None \<or>
   0 < moveListeners (run F rate alphaMin es (initializePixi width height rs ds))"
proof -
  have "dragTarget (run F rate alphaMin es s) = None \<or> 0 < moveListeners (run F rate alphaMin es s)"
    if "dragTarget s = None \<or> 0 < moveListeners s" for s
    using that
  proof (induction es arbitrary: s)
    case Nil
    then show ?case by simp
  next
    case (Cons e es)
    then show ?case using dragging_subscribed_step [of s F rate alphaMin e] by simp
  qed
  then show ?thesis by (simp add: initializePixi_def)
qed

text \<open>
  C3, as the spec states it, fails on the code. \<open>onDragMove\<close> calls
  \<open>simulation.alpha(1).restart()\<close> on every move: a pointer-move during the drag of
  node 0 in the settled graph resets alpha from 1/2000 to 1 and restarts the timer.
\<close>

theorem pointer_move_reheats:
  "dragTarget dragging_settled = Some 0 \<and>
   simulation dragging_settled = \<lparr>alpha = 1/2000, alphaTarget = 0, running = False\<rparr> \<and>
   simulation (dispatch (PointerMove (pointer_at 50 50)) dragging_settled)
     = \<lparr>alpha = 1, alphaTarget = 0, running = True\<rparr>"
  by (simp add: dragging_settled_eq onDragMove_def upd_node_def pointer_at_def)

text \<open>
  C3, amended. During an active drag, every pointer-move event updates the dragged
  node's pinned position (fx, fy) to the new pointer coordinates, and every such event
  reheats: the move handler resets alpha to 1 and restarts the simulation.
\<close>

theorem pointer_move_while_dragging:
  assumes "dragTarget s = Some d" and "d < length (nodes s)" and "0 < moveListeners s"
  shows "fx (nodes (dispatch (PointerMove event) s) ! d) = Some (global_x event) \<and>
         fy (nodes (dispatch (PointerMove event) s) ! d) = Some (global_y event) \<and>
         dragTarget (dispatch (PointerMove event) s) = Some d \<and>
         alpha (simulation (dispatch (PointerMove event) s)) = 1 \<and>
         running (simulation (dispatch (PointerMove event) s))"
  using assms by (simp add: onDragMove_funpow onDragMove_def nth_upd_node)

theorem pointer_move_while_dragging_witness:
  "dragTarget dragging_settled = Some 0 \<and> 0 < moveListeners dragging_settled \<and>
   fx (nodes (dispatch (PointerMove (pointer_at 50 50)) dragging_settled) ! 0) = Some 50 \<and>
   fy (nodes (dispatch (PointerMove (pointer_at 50 50)) dragging_settled) ! 0) = Some 50 \<and>
   alpha (simulation (dispatch (PointerMove (pointer_at 50 50)) dragging_settled)) = 1 \<and>
   running (simulation (dispatch (PointerMove (pointer_at 50 50)) dragging_settled))"
proof -
  have h1: "dragTarget dragging_settled = Some 0" by (simp add: dragging_settled_eq)
  have h2: "0 < length (nodes dragging_settled)" by (simp add: dragging_settled_eq)
  have h3: "0 < moveListeners dragging_settled" by (simp add: dragging_settled_eq)
  show ?thesis
    using pointer_move_while_dragging [OF h1 h2 h3, of "pointer_at 50 50"] h1 h3
    by (simp add: pointer_at_def)
qed

section \<open>Drag end\<close>

text \<open>
  C5. For every pointer-up or pointer-up-outside event delivered while Dragging, the
  controller goes back to Idle (\<open>dragTarget\<close> is null again): the dragged node's pinned
  position (fx, fy) is cleared to null, its circle has the normal opacity 1 again, the
  simulation's alphaTarget is 0, and the move handler is unsubscribed.
\<close>

theorem onDragEnd_dragging:
  assumes "dragTarget s = Some d" and "d < length (nodes s)" and "circle (nodes s ! d) = Some g"
    and "e = PointerUp \<or> e = PointerUpOutside"
  shows "dragTarget (dispatch e s) = None \<and>
         fx (nodes (dispatch e s) ! d) = None \<and>
         fy (nodes (dispatch e s) ! d) = None \<and>
         circle (nodes (dispatch e s) ! d) = Some (g\<lparr>g_alpha := 1\<rparr>) \<and>
         alphaTarget (simulation (dispatch e s)) = 0 \<and>
         moveListeners (dispatch e s) = 0"
  using assms by (auto simp: onDragEnd_def upd_node_def)

text \<open>
  The scenario of the spec: after pointer-down at (0, 0) and pointer-move to (50, 50)
  node 0 is pinned at (50, 50); after the pointer-up the pin is cleared and alphaTarget
  is 0.
\<close>

theorem onDragEnd_dragging_witness:
  "dragTarget drag_scenario = Some 0 \<and> fx (nodes drag_scenario ! 0) = Some 50 \<and>
   fy (nodes drag_scenario ! 0) = Some 50 \<and>
   dragTarget (dispatch PointerUp drag_scenario) = None \<and>
   fx (nodes (dispatch PointerUp drag_scenario) ! 0) = None \<and>
   fy (nodes (dispatch PointerUp drag_scenario) ! 0) = None \<and>
   circle (nodes (dispatch PointerUp drag_scenario) ! 0) = Some \<lparr>g_alpha = 1\<rparr> \<and>
   alphaTarget (simulation (dispatch PointerUp drag_scenario)) = 0"
proof -
  have h1: "dragTarget drag_scenario = Some 0" by (simp add: drag_scenario_eq)
  have h2: "0 < length (nodes drag_scenario)" by (simp add: drag_scenario_eq)
  have h3: "circle (nodes drag_scenario ! 0) = Some \<lparr>g_alpha = 1/2\<rparr>" by (simp add: drag_scenario_eq)
  have h4: "PointerUp = PointerUp \<or> PointerUp = PointerUpOutside" by simp
  have h5: "fx (nodes drag_scenario ! 0) = Some 50 \<and> fy (nodes drag_scenario ! 0) = Some 50"
    by (simp add: drag_scenario_eq)
  show ?thesis using onDragEnd_dragging [OF h1 h2 h3 h4] h1 h5 by simp
qed

text \<open>
  C10. A pointer-up or pointer-up-outside event delivered while no drag is in progress
  (\<open>dragTarget\<close> is null) changes nothing: the whole state (every node's pinned
  position, every circle's opacity, the \<open>pointermove\<close> subscriptions, the simulation's
  alpha and alphaTarget) is the state before the event.
\<close>

theorem onDragEnd_idle_noop:
  assumes "dragTarget s = None"
  shows "onDragEnd s = s \<and> dispatch PointerUp s = s \<and> dispatch PointerUpOutside s = s"
  using assms by (simp add: onDragEnd_def)

theorem onDragEnd_idle_noop_witness:
  "dragTarget example_graph = None \<and> onDragEnd example_graph = example_graph
   \<and> dispatch PointerUp example_graph = example_graph
   \<and> dispatch PointerUpOutside example_graph = example_graph"
proof -
  have h: "dragTarget example_graph = None" by (simp add: example_graph_eq)
  show ?thesis using h onDragEnd_idle_noop [OF h] by simp
qed

section \<open>Ticks\<close>

lemma length_nodes_tick [simp]: "length (nodes (tick F rate alphaMin s)) = length (nodes s)"
  by (simp add: tick_def)

lemma nodes_tick_nth:
  "i < length (nodes s) \<Longrightarrow>
   nodes (tick F rate alphaMin s) ! i = integrate (alpha (simulation s)) F (nodes s) (i, nodes s ! i)"
  by (simp add: tick_def nth_enumerate_eq)

lemma tick_pinned_once:
  assumes "i < length (nodes s)" and "fx (nodes s ! i) = Some px" and "fy (nodes s ! i) = Some py"
  shows "x (nodes (tick F rate alphaMin s) ! i) = px \<and> y (nodes (tick F rate alphaMin s) ! i) = py \<and>
         fx (nodes (tick F rate alphaMin s) ! i) = Some px \<and>
         fy (nodes (tick F rate alphaMin s) ! i) = Some py"
  using assms by (simp add: nodes_tick_nth integrate_def Let_def)

lemma ticks_keep_pin:
  assumes "i < length (nodes s)" and "fx (nodes s ! i) = Some px" and "fy (nodes s ! i) = Some py"
  shows "length (nodes ((tick F rate alphaMin ^^ k) s)) = length (nodes s) \<and>
         fx (nodes ((tick F rate alphaMin ^^ k) s) ! i) = Some px \<and>
         fy (nodes ((tick F rate alphaMin ^^ k) s) ! i) = Some py"
proof (induction k)
  case 0
  show ?case using assms by simp
next
  case (Suc k)
  then show ?case using assms(1) tick_pinned_once [of i "(tick F rate alphaMin ^^ k) s" px py F rate alphaMin]
    by simp
qed

text \<open>
  C1. For every node and every tick: if the node's pinned position (fx, fy) is non-null
  when the tick runs, then after the tick the node's position (x, y) is exactly
  (fx, fy), and the pin is still set. Hence after each of any number \<open>k > 0\<close> of ticks
  (the scenario: 10 ticks) a node pinned before the first tick is at its pin.
\<close>

theorem pinned_node_stays_at_pin:
  assumes "i < length (nodes s)" and "fx (nodes s ! i) = Some px" and "fy (nodes s ! i) = Some py"
    and "0 < k"
  shows "x (nodes ((tick F rate alphaMin ^^ k) s) ! i) = px \<and>
         y (nodes ((tick F rate alphaMin ^^ k) s) ! i) = py \<and>
         fx (nodes ((tick F rate alphaMin ^^ k) s) ! i) = Some px \<and>
         fy (nodes ((tick F rate alphaMin ^^ k) s) ! i) = Some py"
proof -
  from assms(4) obtain k' where k: "k = Suc k'" by (cases k) auto
  let ?t = "(tick F rate alphaMin ^^ k') s"
  have "length (nodes ?t) = length (nodes s) \<and> fx (nodes ?t ! i) = Some px \<and> fy (nodes ?t ! i) = Some py"
    using assms(1-3) by (rule ticks_keep_pin)
  then show ?thesis
    using assms(1) tick_pinned_once [of i ?t px py F rate alphaMin] k by simp
qed

theorem pinned_node_stays_at_pin_witness:
  "x (nodes pinned_graph ! 0) = 200 \<and> y (nodes pinned_graph ! 0) = 300 \<and>
   fx (nodes pinned_graph ! 0) = Some 100 \<and> fy (nodes pinned_graph ! 0) = Some 100 \<and>
   x (nodes (tick unit_force (99/100) (1/1000) pinned_graph) ! 0) = 100 \<and>
   y (nodes (tick unit_force (99/100) (1/1000) pinned_graph) ! 0) = 100 \<and>
   x (nodes (tick unit_force (99/100) (1/1000) pinned_graph) ! 1) = 401 \<and>
   x (nodes ((tick unit_force (99/100) (1/1000) ^^ 10) pinned_graph) ! 0) = 100 \<and>
   y (nodes ((tick unit_force (99/100) (1/1000) ^^ 10) pinned_graph) ! 0) = 100"
proof -
  have h1: "0 < length (nodes pinned_graph)" by (simp add: pinned_graph_eq)
  have h2: "fx (nodes pinned_graph ! 0) = Some 100" by (simp add: pinned_graph_eq)
  have h3: "fy (nodes pinned_graph ! 0) = Some 100" by (simp add: pinned_graph_eq)
  have b: "x (nodes pinned_graph ! 0) = 200 \<and> y (nodes pinned_graph ! 0) = 300"
    by (simp add: pinned_graph_eq)
  have free: "x (nodes (tick unit_force (99/100) (1/1000) pinned_graph) ! 1) = 401"
    by (simp add: pinned_graph_eq tick_def integrate_def unit_force_def)
  show ?thesis
    using pinned_node_stays_at_pin [OF h1 h2 h3, of 1 unit_force "99/100" "1/1000"]
      pinned_node_stays_at_pin [OF h1 h2 h3, of 10 unit_force "99/100" "1/1000"]
      h2 h3 b free by simp
qed

lemma decay_settling:
  assumes "0 \<le> rate" and "rate \<le> 1" and "0 \<le> alpha m" and "alpha m \<le> 1" and "alphaTarget m = 0"
  shows "0 \<le> alpha (decay rate alphaMin m) \<and> alpha (decay rate alphaMin m) \<le> alpha m \<and>
         alphaTarget (decay rate alphaMin m) = 0"
proof -
  have "alpha m * rate \<le> alpha m * 1"
    using assms(2,3) by (rule mult_left_mono)
  then show ?thesis using assms by (simp add: decay_def Let_def)
qed

lemma simulation_dispatch:
  "simulation (dispatch e s) = simulation s \<or>
   (reheats (Pointer e) \<and> simulation (dispatch e s) = (simulation s)\<lparr>alpha := 1, running := True\<rparr>) \<or>
   simulation (dispatch e s) = (simulation s)\<lparr>alphaTarget := 0\<rparr>"
  by (cases e) (simp_all add: onDragMove_funpow_if onDragStart_def onDragMove_def onDragEnd_def
      split: option.splits)

lemma step_settling:
  assumes "0 \<le> rate" and "rate \<le> 1"
    and "0 \<le> alpha (simulation s)" and "alpha (simulation s) \<le> 1" and "alphaTarget (simulation s) = 0"
  shows "0 \<le> alpha (simulation (step F rate alphaMin e s)) \<and>
         alpha (simulation (step F rate alphaMin e s)) \<le> 1 \<and>
         alphaTarget (simulation (step F rate alphaMin e s)) = 0 \<and>
         (\<not> reheats e \<longrightarrow> alpha (simulation (step F rate alphaMin e s)) \<le> alpha (simulation s))"
proof (cases e)
  case (Pointer p)
  then show ?thesis using assms(3-5) simulation_dispatch [of p s] by auto
next
  case Tick
  then show ?thesis
    using assms decay_settling [of rate "simulation s" alphaMin] by (auto simp: tick_def)
qed

lemma run_settling:
  assumes "0 \<le> rate" and "rate \<le> 1"
    and "0 \<le> alpha (simulation s)" and "alpha (simulation s) \<le> 1" and "alphaTarget (simulation s) = 0"
  shows "0 \<le> alpha (simulation (run F rate alphaMin es s)) \<and>
         alpha (simulation (run F rate alphaMin es s)) \<le> 1 \<and>
         alphaTarget (simulation (run F rate alphaMin es s)) = 0"
  using assms(3-5)
proof (induction es arbitrary: s)
  case Nil
  then show ?case by simp
next
  case (Cons e es)
  show ?case
    using Cons.IH [of "step F rate alphaMin e s"]
      step_settling [OF assms(1,2) Cons.prems, of F alphaMin e] by simp
qed

lemma run_no_reheat:
  assumes "0 \<le> rate" and "rate \<le> 1"
    and "0 \<le> alpha (simulation s)" and "alpha (simulation s) \<le> 1" and "alphaTarget (simulation s) = 0"
    and "\<forall>e \<in> set es. \<not> reheats e"
  shows "alpha (simulation (run F rate alphaMin es s)) \<le> alpha (simulation s)"
  using assms(3-6)
proof (induction es arbitrary: s)
  case Nil
  then show ?case by simp
next
  case (Cons e es)
  have st: "0 \<le> alpha (simulation (step F rate alphaMin e s)) \<and>
         alpha (simulation (step F rate alphaMin e s)) \<le> 1 \<and>
         alphaTarget (simulation (step F rate alphaMin e s)) = 0 \<and>
         (\<not> reheats e \<longrightarrow> alpha (simulation (step F rate alphaMin e s)) \<le> alpha (simulation s))"
    using assms(1,2) Cons.prems(1-3) by (rule step_settling)
  have "alpha (simulation (run F rate alphaMin es (step F rate alphaMin e s)))
        \<le> alpha (simulation (step F rate alphaMin e s))"
    using Cons.IH [of "step F rate alphaMin e s"] st Cons.prems(4) by simp
  also have "\<dots> \<le> alpha (simulation s)"
    using st Cons.prems(4) by simp
  finally show ?case by simp
qed

text \<open>
  C6. In every state the program reaches from its initial state, by any sequence of
  pointer events and ticks, alpha is within [0, 1]; and from such a state no sequence of
  events without a reheat (a pointer-move, the only event whose handler resets alpha to
  1) increases alpha: across ticks alpha is monotonically non-increasing unless a reheat
  occurred in between. The program never sets a positive alphaTarget. The decay rate is
  any number in [0, 1].
\<close>

theorem alpha_bounded_and_settling:
  assumes "0 \<le> rate" and "rate \<le> 1"
    and "s = run F rate alphaMin es (initializePixi width height rs ds)"
  shows "0 \<le> alpha (simulation s) \<and> alpha (simulation s) \<le> 1 \<and>
         ((\<forall>e \<in> set es'. \<not> reheats e) \<longrightarrow>
            alpha (simulation (run F rate alphaMin es' s)) \<le> alpha (simulation s))"
proof -
  let ?s0 = "initializePixi width height rs ds"
  have i: "0 \<le> alpha (simulation ?s0)" "alpha (simulation ?s0) \<le> 1" "alphaTarget (simulation ?s0) = 0"
    by (simp_all add: initializePixi_def)
  have inv: "0 \<le> alpha (simulation s) \<and> alpha (simulation s) \<le> 1 \<and> alphaTarget (simulation s) = 0"
    unfolding assms(3) using assms(1,2) i by (rule run_settling)
  then show ?thesis
    using run_no_reheat [OF assms(1,2), of s es' F alphaMin] by blast
qed

theorem alpha_bounded_and_settling_witness:
  "(0::real) \<le> 1/2 \<and> (1/2::real) \<le> 1 \<and>
   alpha (simulation (run unit_force (1/2) (1/1000)
       [Pointer (PointerDown 0 (pointer_at 0 0)), Tick, Pointer (PointerMove (pointer_at 50 50)), Tick]
       example_graph)) = 1/2 \<and>
   alpha (simulation (run unit_force (1/2) (1/1000) [Tick, Pointer PointerUp, Tick]
     (run unit_force (1/2) (1/1000)
       [Pointer (PointerDown 0 (pointer_at 0 0)), Tick, Pointer (PointerMove (pointer_at 50 50)), Tick]
       example_graph))) = 1/8 \<and>
   alpha (simulation (run unit_force (1/2) (1/1000) [Tick, Pointer PointerUp, Tick]
     (run unit_force (1/2) (1/1000)
       [Pointer (PointerDown 0 (pointer_at 0 0)), Tick, Pointer (PointerMove (pointer_at 50 50)), Tick]
       example_graph)))
   \<le> alpha (simulation (run unit_force (1/2) (1/1000)
       [Pointer (PointerDown 0 (pointer_at 0 0)), Tick, Pointer (PointerMove (pointer_at 50 50)), Tick]
       example_graph))"
proof -
  let ?es = "[Pointer (PointerDown 0 (pointer_at 0 0)), Tick, Pointer (PointerMove (pointer_at 50 50)), Tick]"
  let ?s = "run unit_force (1/2) (1/1000) ?es example_graph"
  have r1: "(0::real) \<le> 1/2" and r2: "(1/2::real) \<le> 1" by simp_all
  have s: "?s = run unit_force (1/2) (1/1000) ?es
      (initializePixi 800 600 [(1/4, 1/2), (1/2, 1/4), (3/4, 3/4)] [(0, 1), (1, 1), (1, 2)])"
    by (simp only: example_graph_def)
  have q: "\<forall>e \<in> set [Tick, Pointer PointerUp, Tick]. \<not> reheats e" by simp
  have a1: "alpha (simulation ?s) = 1/2"
    by (simp add: example_graph_eq tick_def decay_def onDragStart_def onDragMove_def upd_node_def)
  have a2: "alpha (simulation (run unit_force (1/2) (1/1000) [Tick, Pointer PointerUp, Tick] ?s)) = 1/8"
    by (simp add: example_graph_eq tick_def decay_def onDragStart_def onDragMove_def onDragEnd_def
        upd_node_def)
  show ?thesis
    using alpha_bounded_and_settling [OF r1 r2 s, of "[Tick, Pointer PointerUp, Tick]"] q a1 a2
    by simp
qed

end
